theory Spec2Isabelle
  imports Complex_Main "HOL-Library.Char_ord" "HOL-Library.List_Lexorder"
begin

section \<open>The Superstore dashboard script (src/main.py)\<close>

text \<open>
  The script runs top to bottom once per user interaction. It imports the plotting
  library, reads a table (uploaded file or default path), parses the Order Date column,
  drops the rows without a date, filters by the chosen date range and by the sidebar
  selections, aggregates, and writes charts, tables and download buttons.

  The dataframe library, the plotting library and the web framework are not part of the
  repository. What the script asks of them is modelled as follows.
  \<^item> A table is the list of its rows, in order. A row is a record of the columns the
    script names in the filters and the group-bys; every other column of the data is
    carried in the record's extension part.
  \<^item> A missing cell of the date column or of a text column (NaT, NaN) is \<open>None\<close>.
  \<^item> A Timestamp is its integer count of time units since the epoch.
  \<^item> A Sales cell is a value of the column's dtype, a type parameter; the sum the
    library makes of a list of cells (float64 with its rounding, int64 with its
    wrap-around, missing cells skipped) is a parameter, \<open>pd_sum\<close>.
  \<^item> The readers, the date parser, the period formatter, the CSV writer and the string
    encoder are parameters of the definitions that call them.
  \<^item> No statement after line 41 stands in a \<open>try\<close>. Whether the library call of a
    statement raises in a run is a parameter, \<open>raises\<close>, from the line of the statement
    to the exception text.
  \<^item> The emoji that open the script's messages and labels are left out of the strings.
\<close>

subsection \<open>Tables\<close>

type_synonym timestamp = int

record ('d, 'v) row =
  Order_Date :: 'd
  Region :: "string option"
  State :: "string option"
  City :: "string option"
  Category :: "string option"
  Sales :: 'v

type_synonym ('d, 'v, 'z) table = "('d, 'v, 'z) row_scheme list"

subsection \<open>What the script shows\<close>

text \<open>
  The frames handed to \<open>st.write\<close> and \<open>to_csv\<close>: the row table \<open>df\<close>, a
  two-column result of a group-by (the names of the key and of the value column, then
  the rows), and the pivot table, which the library computes and no claim looks into.
\<close>

datatype ('v, 'z) dataframe =
    Records "(timestamp option, 'v, 'z) table"
  | Grouped string string "(string \<times> 'v) list"
  | Pivot_table string string string

text \<open>\<open>frame.style.background_gradient(cmap=...)\<close> and \<open>frame.T.style...\<close>.\<close>

datatype ('v, 'z) styler =
    Style "('v, 'z) dataframe" string
  | Style_T "('v, 'z) dataframe" string

text \<open>
  What the script asks Streamlit to set or show, in the order of the calls. The body of a
  \<open>with\<close> block (a column, an expander) is held by its container.
\<close>

datatype container = Column nat | Expander string

datatype ('v, 'z, 'b) element =
    St_set_page_config string string string
  | St_title string
  | St_markdown string
  | St_file_uploader string "string list"
  | St_error string
  | St_info string
  | St_write string
  | St_columns nat
  | St_date_input string "timestamp option"
  | St_sidebar_header string
  | St_sidebar_multiselect string "string option list"
  | St_subheader string
  | St_plotly_chart string
  | St_write_styled "('v, 'z) styler"
  | St_download_button string 'b string string
  | St_container container "('v, 'z, 'b) element list"

text \<open>
  How a part of the script ends: \<open>st.stop()\<close>, an exception nobody catches, or the
  value the rest of the script goes on with.
\<close>

datatype 'a step = Stop | Raise string | Next 'a

subsection \<open>Lines 8-16: importing plotly\<close>

text \<open>
  The argument is the exception text of the two import statements, \<open>None\<close> when both
  succeed.
\<close>

definition import_plotly :: "string option \<Rightarrow> ('v, 'z, 'b) element list \<times> unit step" where
  "import_plotly import_error =
     (case import_error of
        Some e \<Rightarrow>
          ([St_error ''Required package 'plotly' is not installed or failed to import.'',
            St_info ''Install it using: `pip install plotly`'',
            St_write (''Import error: '' @ e)], Stop)
      | None \<Rightarrow> ([], Next ()))"

subsection \<open>Lines 23-41: the file upload section\<close>

record uploaded_file =
  name :: string
  content :: string

datatype source = Uploaded uploaded_file | Local_path string

text \<open>The two reader calls of the script, with the encoding passed to \<open>read_csv\<close>.\<close>

datatype read_call = Read_csv source string | Read_excel source

definition endswith :: "string \<Rightarrow> string \<Rightarrow> bool" where
  "endswith s suffix \<longleftrightarrow>
     length suffix \<le> length s \<and> drop (length s - length suffix) s = suffix"

definition upload_types :: "string list" where
  "upload_types = [''csv'', ''txt'', ''xlsx'', ''xls'']"

definition default_path :: string where
  "default_path =
     ''C:'' @ [CHR 0x5C] @ ''Users'' @ [CHR 0x5C] @ ''ashu9'' @ [CHR 0x5C] @ ''Desktop''
       @ [CHR 0x5C] @ ''sreamlit project'' @ [CHR 0x5C] @ ''Sample Superstore.csv''"

text \<open>
  \<open>pd\<close> performs a reader call: \<open>Inl\<close> the exception it raises, \<open>Inr\<close> the table.
\<close>

definition run_reader :: "(read_call \<Rightarrow> string + 't) \<Rightarrow> read_call \<Rightarrow> 't step" where
  "run_reader pd c = (case pd c of Inl e \<Rightarrow> Raise e | Inr t \<Rightarrow> Next t)"

text \<open>The reader call chosen for an uploaded file (lines 30-33).\<close>

definition upload_reader :: "uploaded_file \<Rightarrow> read_call" where
  "upload_reader fl =
     (let filename = name fl in
      if endswith filename ''.csv'' \<or> endswith filename ''.txt''
      then Read_csv (Uploaded fl) ''ISO-8859-1''
      else Read_excel (Uploaded fl))"

definition file_upload_section ::
  "(read_call \<Rightarrow> string + 't) \<Rightarrow> (string \<Rightarrow> bool) \<Rightarrow> uploaded_file option
    \<Rightarrow> ('v, 'z, 'b) element list \<times> 't step" where
  "file_upload_section pd path_exists fl =
     (case fl of
        Some f \<Rightarrow>
          ([St_file_uploader '':file_folder: Upload a file'' upload_types,
            St_write (''Uploaded File: '' @ name f)],
           run_reader pd (upload_reader f))
      | None \<Rightarrow>
          if path_exists default_path
          then ([St_file_uploader '':file_folder: Upload a file'' upload_types],
                run_reader pd (Read_csv (Local_path default_path) ''ISO-8859-1''))
          else ([St_file_uploader '':file_folder: Upload a file'' upload_types,
                 St_error ''Default dataset not found. Please upload a file.''], Stop))"

text \<open>
  Lines 8-41 together: the import, the page setup of lines 19-21, the upload section.
\<close>

definition load_table ::
  "(read_call \<Rightarrow> string + 't) \<Rightarrow> (string \<Rightarrow> bool) \<Rightarrow> string option \<Rightarrow> uploaded_file option
    \<Rightarrow> ('v, 'z, 'b) element list \<times> 't step" where
  "load_table pd path_exists import_error fl =
     (case import_plotly import_error of
        (shown, Next _) \<Rightarrow>
          (case file_upload_section pd path_exists fl of
             (shown', s) \<Rightarrow>
               (shown
                @ [St_set_page_config ''Superstore Dashboard'' '':bar_chart:'' ''wide'',
                   St_title '':bar_chart: Sample SuperStore EDA'',
                   St_markdown ''<style>div.block-container{padding-top:1rem;}</style>'']
                @ shown', s))
      | (shown, Stop) \<Rightarrow> (shown, Stop)
      | (shown, Raise e) \<Rightarrow> (shown, Raise e))"

subsection \<open>Lines 43-48: parsing the dates, dropping the rows without one\<close>

text \<open>
  \<open>to_datetime col c\<close> is what \<open>pd.to_datetime(col, dayfirst=True, errors='coerce')\<close>
  puts in the place of the cell \<open>c\<close> of the column \<open>col\<close>: the Timestamp, or \<open>None\<close>
  (NaT) for a cell it cannot parse.
\<close>

definition coerce_row ::
  "('raw list \<Rightarrow> 'raw \<Rightarrow> timestamp option) \<Rightarrow> 'raw list \<Rightarrow> ('raw, 'v, 'z) row_scheme
    \<Rightarrow> (timestamp option, 'v, 'z) row_scheme" where
  "coerce_row to_datetime col r =
     \<lparr>Order_Date = to_datetime col (Order_Date r), Region = Region r, State = State r,
      City = City r, Category = Category r, Sales = Sales r, \<dots> = row.more r\<rparr>"

definition fix_date_parsing ::
  "('raw list \<Rightarrow> 'raw \<Rightarrow> timestamp option) \<Rightarrow> ('raw, 'v, 'z) table \<Rightarrow> (timestamp option, 'v, 'z) table" where
  "fix_date_parsing to_datetime t = map (coerce_row to_datetime (map Order_Date t)) t"

definition dropna_Order_Date :: "(timestamp option, 'v, 'z) table \<Rightarrow> (timestamp option, 'v, 'z) table" where
  "dropna_Order_Date t = filter (\<lambda>r. Order_Date r \<noteq> None) t"

subsection \<open>Lines 50-61: the date range filter\<close>

text \<open>Comparing a cell with a Timestamp; a comparison with NaT is false.\<close>

definition date_ge :: "timestamp option \<Rightarrow> timestamp \<Rightarrow> bool" where
  "date_ge c d = (case c of None \<Rightarrow> False | Some t \<Rightarrow> d \<le> t)"

definition date_le :: "timestamp option \<Rightarrow> timestamp \<Rightarrow> bool" where
  "date_le c d = (case c of None \<Rightarrow> False | Some t \<Rightarrow> t \<le> d)"

text \<open>
  \<open>date1\<close> and \<open>date2\<close> are the Timestamps \<open>pd.to_datetime\<close> makes of the two dates
  picked in the date inputs.
\<close>

definition date_range_filter ::
  "timestamp \<Rightarrow> timestamp \<Rightarrow> (timestamp option, 'v, 'z) table \<Rightarrow> (timestamp option, 'v, 'z) table" where
  "date_range_filter date1 date2 t =
     filter (\<lambda>r. date_ge (Order_Date r) date1 \<and> date_le (Order_Date r) date2) t"

text \<open>The variable \<open>df\<close> from line 61 on.\<close>

definition df ::
  "('raw list \<Rightarrow> 'raw \<Rightarrow> timestamp option) \<Rightarrow> timestamp \<Rightarrow> timestamp \<Rightarrow> ('raw, 'v, 'z) table
    \<Rightarrow> (timestamp option, 'v, 'z) table" where
  "df to_datetime date1 date2 loaded =
     date_range_filter date1 date2 (dropna_Order_Date (fix_date_parsing to_datetime loaded))"

subsection \<open>Lines 63-77: the sidebar filters\<close>

text \<open>
  \<open>isin\<close> is membership; a missing cell is a member of a selection that holds the
  missing value.
\<close>

definition isin :: "'a \<Rightarrow> 'a list \<Rightarrow> bool" where
  "isin v selection \<longleftrightarrow> v \<in> set selection"

text \<open>One \<open>if selection: filtered_df = filtered_df[filtered_df[col].isin(selection)]\<close>.\<close>

definition sidebar_filter ::
  "(('d, 'v, 'z) row_scheme \<Rightarrow> string option) \<Rightarrow> string option list \<Rightarrow> ('d, 'v, 'z) table
    \<Rightarrow> ('d, 'v, 'z) table" where
  "sidebar_filter col selection t =
     (if selection \<noteq> [] then filter (\<lambda>r. isin (col r) selection) t else t)"

definition filtered_df ::
  "('d, 'v, 'z) table \<Rightarrow> string option list \<Rightarrow> string option list \<Rightarrow> string option list
    \<Rightarrow> ('d, 'v, 'z) table" where
  "filtered_df t region state city =
     sidebar_filter City city (sidebar_filter State state (sidebar_filter Region region t))"

subsection \<open>Lines 82 and 93: group-by and sum\<close>

text \<open>
  \<open>t.groupby(key, as_index=False)[value].sum()\<close>: one pass over the rows puts the value
  of each row at the end of the group of the row's key; a row whose key is missing
  belongs to no group. Each group is then summed by the library, and the groups come out
  sorted by key.
\<close>

fun add_to_group :: "'k \<Rightarrow> 'v \<Rightarrow> ('k \<times> 'v list) list \<Rightarrow> ('k \<times> 'v list) list" where
  "add_to_group k v [] = [(k, [v])]"
| "add_to_group k v ((k', vs) # gs) =
     (if k = k' then (k', vs @ [v]) # gs else (k', vs) # add_to_group k v gs)"

fun group_values ::
  "('r \<Rightarrow> 'k option) \<Rightarrow> ('r \<Rightarrow> 'v) \<Rightarrow> 'r list \<Rightarrow> ('k \<times> 'v list) list
    \<Rightarrow> ('k \<times> 'v list) list" where
  "group_values key val [] acc = acc"
| "group_values key val (r # rs) acc =
     (case key r of
        None \<Rightarrow> group_values key val rs acc
      | Some k \<Rightarrow> group_values key val rs (add_to_group k (val r) acc))"

definition groupby_sum ::
  "('v list \<Rightarrow> 'v) \<Rightarrow> ('r \<Rightarrow> 'k::linorder option) \<Rightarrow> ('r \<Rightarrow> 'v) \<Rightarrow> 'r list
    \<Rightarrow> ('k \<times> 'v) list" where
  "groupby_sum pd_sum key val t =
     sort_key fst (map (\<lambda>(k, vs). (k, pd_sum vs)) (group_values key val t []))"

definition category_df :: "('v list \<Rightarrow> 'v) \<Rightarrow> ('d, 'v, 'z) table \<Rightarrow> (string \<times> 'v) list" where
  "category_df pd_sum f = groupby_sum pd_sum Category Sales f"

definition region_df :: "('v list \<Rightarrow> 'v) \<Rightarrow> ('d, 'v, 'z) table \<Rightarrow> (string \<times> 'v) list" where
  "region_df pd_sum f = groupby_sum pd_sum Region Sales f"

subsection \<open>Lines 111-122 and 149: the month columns and the time series\<close>

text \<open>A column assigned to a table is put in front of the other columns it carries.\<close>

definition add_column :: "('d, 'v, 'z) row_scheme \<Rightarrow> 'c \<Rightarrow> ('d, 'v, 'c \<times> 'z) row_scheme" where
  "add_column r c =
     \<lparr>Order_Date = Order_Date r, Region = Region r, State = State r, City = City r,
      Category = Category r, Sales = Sales r, \<dots> = (c, row.more r)\<rparr>"

definition last_added :: "('d, 'v, 'c \<times> 'z) row_scheme \<Rightarrow> 'c" where
  "last_added r = fst (row.more r)"

text \<open>
  Line 112, \<open>filtered_df["month_year"] = filtered_df["Order Date"].dt.to_period("M")\<close>.
\<close>

definition with_month_year ::
  "(timestamp \<Rightarrow> 'p) \<Rightarrow> (timestamp option, 'v, 'z) table
    \<Rightarrow> (timestamp option, 'v, 'p option \<times> 'z) table" where
  "with_month_year to_period_M f =
     map (\<lambda>r. add_column r (map_option to_period_M (Order_Date r))) f"

text \<open>
  Line 115: the group-by on \<open>month_year.dt.strftime("%Y-%b")\<close>, then \<open>reset_index\<close>.
\<close>

definition linechart ::
  "('v list \<Rightarrow> 'v) \<Rightarrow> ('p \<Rightarrow> string) \<Rightarrow> (timestamp option, 'v, 'p option \<times> 'z) table
    \<Rightarrow> (string \<times> 'v) list" where
  "linechart pd_sum strftime_Y_b f =
     groupby_sum pd_sum (\<lambda>r. map_option strftime_Y_b (last_added r)) Sales f"

text \<open>Line 149, \<open>filtered_df["month"] = filtered_df["Order Date"].dt.month_name()\<close>.\<close>

definition with_month ::
  "(timestamp \<Rightarrow> string) \<Rightarrow> (timestamp option, 'v, 'z) table
    \<Rightarrow> (timestamp option, 'v, string option \<times> 'z) table" where
  "with_month month_name f =
     map (\<lambda>r. add_column r (map_option month_name (Order_Date r))) f"

subsection \<open>Lines 45-162: the statements after the load\<close>

text \<open>
  A statement is known by its first line. \<open>Line n shown\<close> is a statement that shows the
  elements \<open>shown\<close> when its calls return; \<open>With n c body\<close> is a \<open>with\<close> block that opens
  the container \<open>c\<close>. A statement that computes a table shows nothing.
\<close>

datatype ('v, 'z, 'b) statement =
    Line nat "('v, 'z, 'b) element list"
  | With nat container "('v, 'z, 'b) statement list"

text \<open>
  Running statements in order: the first one that raises ends the run, and what was shown
  before it stays on the page, also inside a container left half filled.
\<close>

fun exec ::
  "(nat \<Rightarrow> string option) \<Rightarrow> ('v, 'z, 'b) statement
    \<Rightarrow> ('v, 'z, 'b) element list \<times> string option"
  and exec_all ::
  "(nat \<Rightarrow> string option) \<Rightarrow> ('v, 'z, 'b) statement list
    \<Rightarrow> ('v, 'z, 'b) element list \<times> string option" where
  "exec raises (Line n shown) =
     (case raises n of Some x \<Rightarrow> ([], Some x) | None \<Rightarrow> (shown, None))"
| "exec raises (With n c body) =
     (case raises n of
        Some x \<Rightarrow> ([], Some x)
      | None \<Rightarrow> (case exec_all raises body of (shown, r) \<Rightarrow> ([St_container c shown], r)))"
| "exec_all raises [] = ([], None)"
| "exec_all raises (s # ss) =
     (case exec raises s of
        (shown, Some x) \<Rightarrow> (shown, Some x)
      | (shown, None) \<Rightarrow> (case exec_all raises ss of (shown', r) \<Rightarrow> (shown @ shown', r)))"

text \<open>The lines of a statement, and what it shows when nothing raises.\<close>

fun lines_of :: "('v, 'z, 'b) statement \<Rightarrow> nat list" where
  "lines_of (Line n shown) = [n]"
| "lines_of (With n c body) = n # concat (map lines_of body)"

fun shown_by :: "('v, 'z, 'b) statement \<Rightarrow> ('v, 'z, 'b) element list" where
  "shown_by (Line n shown) = shown"
| "shown_by (With n c body) = [St_container c (concat (map shown_by body))]"

text \<open>Lines 52-53: the least and the greatest date of a column, NaT when it has none.\<close>

definition Order_Date_min :: "(timestamp option, 'v, 'z) table \<Rightarrow> timestamp option" where
  "Order_Date_min t =
     (case List.map_filter Order_Date t of [] \<Rightarrow> None | x # xs \<Rightarrow> Some (fold min xs x))"

definition Order_Date_max :: "(timestamp option, 'v, 'z) table \<Rightarrow> timestamp option" where
  "Order_Date_max t =
     (case List.map_filter Order_Date t of [] \<Rightarrow> None | x # xs \<Rightarrow> Some (fold max xs x))"

text \<open>\<open>column.unique()\<close>: the values in the order of their first appearance.\<close>

definition unique :: "'a list \<Rightarrow> 'a list" where
  "unique xs = rev (remdups (rev xs))"

text \<open>
  \<open>to_csv t index\<close> is \<open>t.to_csv(index=index)\<close> and \<open>encode s enc\<close> is
  \<open>s.encode(enc)\<close>.
\<close>

definition download_button_csv ::
  "(('v, 'z) dataframe \<Rightarrow> bool \<Rightarrow> string) \<Rightarrow> (string \<Rightarrow> string \<Rightarrow> 'b) \<Rightarrow> string
    \<Rightarrow> ('v, 'z) dataframe \<Rightarrow> string \<Rightarrow> ('v, 'z, 'b) element" where
  "download_button_csv to_csv encode label t file =
     St_download_button label (encode (to_csv t False) ''utf-8'') file ''text/csv''"

text \<open>
  The statements of lines 45-162 for the table \<open>loaded\<close>. \<open>date1\<close> and \<open>date2\<close> are
  the Timestamps of the dates the two date inputs return, \<open>region\<close>, \<open>state\<close> and
  \<open>city\<close> what the three multiselects return. A chart is kept as the name of the
  plotting call that draws it, the pivot table as its three column names. The time series
  table is written transposed (\<open>linechart.T\<close>). The statements of lines 73, 75 and 77
  are run only when their selection is not empty.
\<close>

definition statements ::
  "('raw list \<Rightarrow> 'raw \<Rightarrow> timestamp option) \<Rightarrow> (timestamp \<Rightarrow> 'p) \<Rightarrow> ('p \<Rightarrow> string)
    \<Rightarrow> ('v list \<Rightarrow> 'v) \<Rightarrow> (('v, 'z) dataframe \<Rightarrow> bool \<Rightarrow> string) \<Rightarrow> (string \<Rightarrow> string \<Rightarrow> 'b)
    \<Rightarrow> timestamp \<Rightarrow> timestamp \<Rightarrow> string option list \<Rightarrow> string option list
    \<Rightarrow> string option list \<Rightarrow> ('raw, 'v, 'z) table \<Rightarrow> ('v, 'z, 'b) statement list" where
  "statements to_datetime to_period_M strftime_Y_b pd_sum to_csv encode
     date1 date2 region state city loaded =
     (let dated = dropna_Order_Date (fix_date_parsing to_datetime loaded);
          d = df to_datetime date1 date2 loaded;
          f = filtered_df d region state city;
          category_data = Grouped ''Category'' ''Sales'' (category_df pd_sum f);
          region_data = Grouped ''Region'' ''Sales'' (region_df pd_sum f);
          time_series = Grouped ''month_year'' ''Sales''
            (linechart pd_sum strftime_Y_b (with_month_year to_period_M f))
      in
      [Line 45 [],
       Line 48 [],
       Line 51 [St_columns 2],
       Line 52 [],
       Line 53 [],
       With 55 (Column 1) [Line 56 [St_date_input ''Start Date'' (Order_Date_min dated)]],
       With 58 (Column 2) [Line 59 [St_date_input ''End Date'' (Order_Date_max dated)]],
       Line 61 [],
       Line 64 [St_sidebar_header ''Choose your filter:''],
       Line 66 [St_sidebar_multiselect ''Pick your Region'' (unique (map Region d))],
       Line 67 [St_sidebar_multiselect ''Pick your State'' (unique (map State d))],
       Line 68 [St_sidebar_multiselect ''Pick your City'' (unique (map City d))],
       Line 71 []]
      @ (if region \<noteq> [] then [Line 73 []] else [])
      @ (if state \<noteq> [] then [Line 75 []] else [])
      @ (if city \<noteq> [] then [Line 77 []] else [])
      @ [Line 80 [St_columns 2],
         Line 82 [],
         With 84 (Column 1)
           [Line 85 [St_subheader ''Category wise Sales''],
            Line 86 [],
            Line 89 [St_plotly_chart ''px.bar'']],
         With 91 (Column 2)
           [Line 92 [St_subheader ''Region wise Sales''],
            Line 93 [],
            Line 94 [],
            Line 95 [St_plotly_chart ''px.pie'']],
         Line 98 [St_columns 2],
         With 99 (Column 1)
           [With 100 (Expander ''Category Data'')
              [Line 101 [St_write_styled (Style category_data ''Blues'')],
               Line 102 [download_button_csv to_csv encode ''Download Category Data''
                           category_data ''Category.csv'']]],
         With 105 (Column 2)
           [With 106 (Expander ''Region Data'')
              [Line 107 [St_write_styled (Style region_data ''Oranges'')],
               Line 108 [download_button_csv to_csv encode ''Download Region Data''
                           region_data ''Region.csv'']]],
         Line 112 [],
         Line 113 [St_subheader ''Time Series Analysis''],
         Line 115 [],
         Line 116 [],
         Line 117 [St_plotly_chart ''px.line''],
         With 119 (Expander ''View Time Series Data'')
           [Line 120 [St_write_styled (Style_T time_series ''Blues'')],
            Line 121 [download_button_csv to_csv encode ''Download Time Series Data''
                        time_series ''TimeSeries.csv'']],
         Line 125 [St_subheader ''Hierarchical View of Sales''],
         Line 126 [],
         Line 128 [St_plotly_chart ''px.treemap''],
         Line 131 [St_columns 2],
         With 132 (Column 1)
           [Line 133 [St_subheader ''Segment wise Sales''],
            Line 134 [],
            Line 135 [St_plotly_chart ''px.pie'']],
         With 137 (Column 2)
           [Line 138 [St_subheader ''Category wise Sales''],
            Line 139 [],
            Line 140 [St_plotly_chart ''px.pie'']],
         Line 143 [St_subheader ''Month-wise Sub-Category Sales Summary''],
         With 144 (Expander ''Summary Table'')
           [Line 145 [],
            Line 146 [],
            Line 147 [St_plotly_chart ''ff.create_table''],
            Line 149 [],
            Line 150 [],
            Line 151 [St_write_styled
                        (Style (Pivot_table ''Sales'' ''Sub-Category'' ''month'') ''Blues'')]],
         Line 154 [St_subheader ''Sales vs Profit Scatter Plot''],
         Line 155 [],
         Line 157 [St_plotly_chart ''px.scatter''],
         Line 160 [download_button_csv to_csv encode ''Download Original Data'' (Records d)
                     ''Data.csv'']])"

subsection \<open>The whole script\<close>

text \<open>
  \<open>dashboard\<close> is one run of the script: what it shows, and how it ends.
\<close>

definition dashboard ::
  "(read_call \<Rightarrow> string + ('raw, 'v, 'z) table) \<Rightarrow> (string \<Rightarrow> bool)
    \<Rightarrow> ('raw list \<Rightarrow> 'raw \<Rightarrow> timestamp option) \<Rightarrow> (timestamp \<Rightarrow> 'p) \<Rightarrow> ('p \<Rightarrow> string)
    \<Rightarrow> ('v list \<Rightarrow> 'v) \<Rightarrow> (('v, 'z) dataframe \<Rightarrow> bool \<Rightarrow> string) \<Rightarrow> (string \<Rightarrow> string \<Rightarrow> 'b)
    \<Rightarrow> (nat \<Rightarrow> string option)
    \<Rightarrow> string option \<Rightarrow> uploaded_file option \<Rightarrow> timestamp \<Rightarrow> timestamp
    \<Rightarrow> string option list \<Rightarrow> string option list \<Rightarrow> string option list
    \<Rightarrow> ('v, 'z, 'b) element list \<times> unit step" where
  "dashboard pd path_exists to_datetime to_period_M strftime_Y_b pd_sum to_csv encode raises
     import_error fl date1 date2 region state city =
     (case load_table pd path_exists import_error fl of
        (shown, Next loaded) \<Rightarrow>
          (case exec_all raises
                  (statements to_datetime to_period_M strftime_Y_b pd_sum to_csv encode
                     date1 date2 region state city loaded) of
             (shown', None) \<Rightarrow> (shown @ shown', Next ())
           | (shown', Some x) \<Rightarrow> (shown @ shown', Raise x))
      | (shown, Stop) \<Rightarrow> (shown, Stop)
      | (shown, Raise e) \<Rightarrow> (shown, Raise e))"

subsection \<open>Reading a page\<close>

text \<open>The styled tables and the download buttons of a page, containers opened.\<close>

fun written_tables :: "('v, 'z, 'b) element \<Rightarrow> ('v, 'z) styler list" where
  "written_tables (St_write_styled t) = [t]"
| "written_tables (St_container c shown) = concat (map written_tables shown)"
| "written_tables _ = []"

fun download_buttons :: "('v, 'z, 'b) element \<Rightarrow> (string \<times> 'b) list" where
  "download_buttons (St_download_button label bytes file mime) = [(file, bytes)]"
| "download_buttons (St_container c shown) = concat (map download_buttons shown)"
| "download_buttons _ = []"

subsection \<open>A small data set\<close>

text \<open>
  Six rows, one of them with a date that does not parse, one with no Category and one
  with no Sales; a parser that knows three dates; periods of thirty days; Sales cells
  that are exact fractions, and a sum that adds them exactly and skips the missing ones.
\<close>

definition ex_to_datetime :: "string list \<Rightarrow> string \<Rightarrow> timestamp option" where
  "ex_to_datetime col c =
     (if c = ''03/01/2020'' then Some 3 else if c = ''07/01/2020'' then Some 7
      else if c = ''09/02/2020'' then Some 40 else None)"

definition ex_loaded :: "(string, rat option, unit) table" where
  "ex_loaded =
     [\<lparr>Order_Date = ''03/01/2020'', Region = Some ''East'', State = Some ''Ohio'',
        City = Some ''Akron'', Category = Some ''Furniture'', Sales = Some 10\<rparr>,
      \<lparr>Order_Date = ''not a date'', Region = Some ''East'', State = Some ''Ohio'',
        City = Some ''Akron'', Category = Some ''Furniture'', Sales = Some 20\<rparr>,
      \<lparr>Order_Date = ''07/01/2020'', Region = Some ''West'', State = Some ''Utah'',
        City = Some ''Provo'', Category = Some ''Technology'', Sales = Some (5 / 2)\<rparr>,
      \<lparr>Order_Date = ''07/01/2020'', Region = Some ''East'', State = Some ''Ohio'',
        City = Some ''Akron'', Category = None, Sales = Some 4\<rparr>,
      \<lparr>Order_Date = ''09/02/2020'', Region = Some ''East'', State = Some ''Ohio'',
        City = Some ''Akron'', Category = Some ''Technology'', Sales = None\<rparr>,
      \<lparr>Order_Date = ''09/02/2020'', Region = Some ''West'', State = Some ''Utah'',
        City = Some ''Provo'', Category = Some ''Furniture'', Sales = Some 1\<rparr>]"

definition ex_to_period_M :: "timestamp \<Rightarrow> int" where
  "ex_to_period_M t = t div 30"

definition ex_strftime_Y_b :: "int \<Rightarrow> string" where
  "ex_strftime_Y_b p = (if p = 0 then ''2020-Jan'' else ''2020-Feb'')"

definition ex_month_name :: "timestamp \<Rightarrow> string" where
  "ex_month_name t = (if t div 30 = 0 then ''January'' else ''February'')"

definition ex_pd_sum :: "rat option list \<Rightarrow> rat option" where
  "ex_pd_sum cells = Some (sum_list (List.map_filter id cells))"

text \<open>A reader that knows one uploaded file and the default path.\<close>

definition ex_upload :: uploaded_file where
  "ex_upload = \<lparr>name = ''sales.csv'', content = ''...''\<rparr>"

definition ex_workbook :: uploaded_file where
  "ex_workbook = \<lparr>name = ''sales.xlsx'', content = ''...''\<rparr>"

definition ex_pd :: "read_call \<Rightarrow> string + (string, rat option, unit) table" where
  "ex_pd c =
     (case c of
        Read_csv src enc \<Rightarrow> if enc = ''ISO-8859-1'' then Inr ex_loaded else Inl ''LookupError''
      | Read_excel src \<Rightarrow> Inl ''ValueError'')"

text \<open>A CSV writer that keeps the keys of a grouped frame, and the identity encoder.\<close>

definition ex_to_csv :: "(rat option, unit) dataframe \<Rightarrow> bool \<Rightarrow> string" where
  "ex_to_csv t index =
     (case t of
        Records rows \<Rightarrow> ''rows:'' @ replicate (length rows) (CHR ''*'')
      | Grouped k v rows \<Rightarrow> k @ '','' @ v @ concat (map (\<lambda>(a, b). '';'' @ a) rows)
      | Pivot_table v i c \<Rightarrow> ''pivot'')"

definition ex_encode :: "string \<Rightarrow> string \<Rightarrow> string" where
  "ex_encode s enc = s"

text \<open>
  Two runs: one in which no statement raises, one in which the treemap call of line 126
  does.
\<close>

definition ex_no_exception :: "nat \<Rightarrow> string option" where
  "ex_no_exception n = None"

definition ex_treemap_raises :: "nat \<Rightarrow> string option" where
  "ex_treemap_raises n = (if n = 126 then Some ''ValueError'' else None)"

section \<open>Properties\<close>

subsection \<open>Filters keep rows of the table they filter\<close>

lemma set_filtered_df: "set (filtered_df t region state city) \<subseteq> set t"
  by (auto simp: filtered_df_def sidebar_filter_def)

lemma set_df:
  "set (df to_datetime date1 date2 loaded)
     \<subseteq> set (dropna_Order_Date (fix_date_parsing to_datetime loaded))"
  by (auto simp: df_def date_range_filter_def)

lemma dropna_valid: "r \<in> set (dropna_Order_Date t) \<Longrightarrow> Order_Date r \<noteq> None"
  by (simp add: dropna_Order_Date_def)

lemma sidebar_filter_conv:
  "sidebar_filter col selection t =
     filter (\<lambda>r. selection \<noteq> [] \<longrightarrow> col r \<in> set selection) t"
  by (simp add: sidebar_filter_def isin_def)

subsection \<open>The filtering stage\<close>

text \<open>
  Claim C1. The rows of \<open>filtered_df\<close> are, in order, the rows of the loaded table (with
  the date parsed) that satisfy every selected predicate: the Order Date parses to a
  Timestamp \<open>t\<close> with \<open>date1 \<le> t \<le> date2\<close>, both ends included, and for each of Region,
  State and City whose selection is not empty the row's value is in the selection. A
  loaded row outside this conjunction does not survive.
\<close>

theorem filtered_rows_are_the_selected_rows:
  "filtered_df (df to_datetime date1 date2 loaded) region state city =
     map (coerce_row to_datetime (map Order_Date loaded))
       (filter (\<lambda>r. (\<exists>t. to_datetime (map Order_Date loaded) (Order_Date r) = Some t
                          \<and> date1 \<le> t \<and> t \<le> date2)
                    \<and> (region \<noteq> [] \<longrightarrow> Region r \<in> set region)
                    \<and> (state \<noteq> [] \<longrightarrow> State r \<in> set state)
                    \<and> (city \<noteq> [] \<longrightarrow> City r \<in> set city)) loaded)"
  unfolding filtered_df_def df_def sidebar_filter_conv date_range_filter_def
    dropna_Order_Date_def fix_date_parsing_def
  by (auto simp: filter_map comp_def coerce_row_def date_ge_def date_le_def
        split: option.splits intro!: arg_cong[where f="map _"] filter_cong)

theorem filtered_rows_are_the_selected_rows_witness:
  "filtered_df (df ex_to_datetime 3 7 ex_loaded) [Some ''East''] [] [] =
     [\<lparr>Order_Date = Some 3, Region = Some ''East'', State = Some ''Ohio'',
        City = Some ''Akron'', Category = Some ''Furniture'', Sales = Some 10\<rparr>,
      \<lparr>Order_Date = Some 7, Region = Some ''East'', State = Some ''Ohio'',
        City = Some ''Akron'', Category = None, Sales = Some 4\<rparr>]"
  unfolding filtered_rows_are_the_selected_rows
    [of ex_to_datetime 3 7 ex_loaded "[Some ''East'']" "[]" "[]"]
  by (simp add: ex_loaded_def ex_to_datetime_def coerce_row_def)

text \<open>
  Claim C8. A sidebar filter whose selection is empty keeps every row of the table it is
  applied to, where the membership test against the empty selection alone would keep
  none; so with all three selections empty \<open>filtered_df\<close> is the date-filtered table, and
  with one of them empty it is what the other two filters leave.
\<close>

theorem empty_selection_is_no_constraint:
  "sidebar_filter col [] t = t
   \<and> filtered_df t [] [] [] = t
   \<and> filtered_df t [] state city = sidebar_filter City city (sidebar_filter State state t)
   \<and> filtered_df t region [] city = sidebar_filter City city (sidebar_filter Region region t)
   \<and> filtered_df t region state [] = sidebar_filter State state (sidebar_filter Region region t)
   \<and> filter (\<lambda>r. isin (col r) []) t = []"
  by (simp add: filtered_df_def sidebar_filter_def isin_def)

subsection \<open>Every retained row has a date\<close>

text \<open>
  Claim C2. After the dates are parsed and the rows without a date are dropped, the
  retained rows are exactly the loaded rows whose Order Date parses, and each has a
  parsed date. The same holds of \<open>df\<close> after the date range filter, of \<open>filtered_df\<close>
  after the sidebar filters, and of \<open>filtered_df\<close> after the time series step has added
  the month_year column and the pivot step the month column; neither added column has a
  missing cell.
\<close>

theorem order_date_valid_after_load:
  "dropna_Order_Date (fix_date_parsing to_datetime loaded) =
     map (coerce_row to_datetime (map Order_Date loaded))
       (filter (\<lambda>r. to_datetime (map Order_Date loaded) (Order_Date r) \<noteq> None) loaded)
   \<and> (\<forall>r \<in> set (dropna_Order_Date (fix_date_parsing to_datetime loaded)). Order_Date r \<noteq> None)
   \<and> (\<forall>r \<in> set (df to_datetime date1 date2 loaded). Order_Date r \<noteq> None)
   \<and> (\<forall>r \<in> set (filtered_df (df to_datetime date1 date2 loaded) region state city).
         Order_Date r \<noteq> None)
   \<and> (\<forall>r \<in> set (with_month_year to_period_M
                    (filtered_df (df to_datetime date1 date2 loaded) region state city)).
         Order_Date r \<noteq> None \<and> last_added r \<noteq> None)
   \<and> (\<forall>r \<in> set (with_month month_name (with_month_year to_period_M
                    (filtered_df (df to_datetime date1 date2 loaded) region state city))).
         Order_Date r \<noteq> None \<and> last_added r \<noteq> None)"
proof -
  let ?clean = "dropna_Order_Date (fix_date_parsing to_datetime loaded)"
  let ?d = "df to_datetime date1 date2 loaded"
  let ?f = "filtered_df ?d region state city"
  have retained: "?clean =
     map (coerce_row to_datetime (map Order_Date loaded))
       (filter (\<lambda>r. to_datetime (map Order_Date loaded) (Order_Date r) \<noteq> None) loaded)"
    by (simp add: dropna_Order_Date_def fix_date_parsing_def filter_map comp_def
          coerce_row_def)
  have clean: "\<forall>r \<in> set ?clean. Order_Date r \<noteq> None"
    using dropna_valid by blast
  have d: "\<forall>r \<in> set ?d. Order_Date r \<noteq> None"
    using clean set_df by blast
  have f: "\<forall>r \<in> set ?f. Order_Date r \<noteq> None"
    using d set_filtered_df by blast
  have my: "\<forall>r \<in> set (with_month_year to_period_M ?f).
      Order_Date r \<noteq> None \<and> last_added r \<noteq> None"
    using f by (auto simp: with_month_year_def add_column_def last_added_def)
  have m: "\<forall>r \<in> set (with_month month_name (with_month_year to_period_M ?f)).
      Order_Date r \<noteq> None \<and> last_added r \<noteq> None"
    using my by (auto simp: with_month_def add_column_def last_added_def)
  from retained clean d f my m show ?thesis by blast
qed

theorem order_date_valid_after_load_witness:
  "dropna_Order_Date (fix_date_parsing ex_to_datetime ex_loaded) =
     map (coerce_row ex_to_datetime (map Order_Date ex_loaded))
       [ex_loaded ! 0, ex_loaded ! 2, ex_loaded ! 3, ex_loaded ! 4, ex_loaded ! 5]
   \<and> list_all (\<lambda>r. Order_Date r \<noteq> None)
       (filtered_df (df ex_to_datetime 7 40 ex_loaded) [Some ''East''] [] [])
   \<and> length (filtered_df (df ex_to_datetime 7 40 ex_loaded) [Some ''East''] [] []) = 2"
proof -
  have sel: "filtered_df (df ex_to_datetime 7 40 ex_loaded) [Some ''East''] [] [] =
    map (coerce_row ex_to_datetime (map Order_Date ex_loaded)) [ex_loaded ! 3, ex_loaded ! 4]"
    by (simp add: filtered_df_def sidebar_filter_def isin_def df_def date_range_filter_def
          dropna_Order_Date_def fix_date_parsing_def ex_loaded_def ex_to_datetime_def
          coerce_row_def date_ge_def date_le_def)
  note v = order_date_valid_after_load
    [of ex_to_datetime ex_loaded 7 40 "[Some ''East'']" "[]" "[]"
      ex_to_period_M ex_month_name]
  have all: "list_all (\<lambda>r. Order_Date r \<noteq> None)
       (filtered_df (df ex_to_datetime 7 40 ex_loaded) [Some ''East''] [] [])"
    using v by (simp add: list_all_iff)
  have kept: "dropna_Order_Date (fix_date_parsing ex_to_datetime ex_loaded) =
     map (coerce_row ex_to_datetime (map Order_Date ex_loaded))
       [ex_loaded ! 0, ex_loaded ! 2, ex_loaded ! 3, ex_loaded ! 4, ex_loaded ! 5]"
    unfolding v [THEN conjunct1] by (simp add: ex_loaded_def ex_to_datetime_def)
  show ?thesis
    using all kept by (simp add: sel)
qed

subsection \<open>Group-by and sum\<close>

lemma keys_add_to_group:
  "map fst (add_to_group k v gs) =
     (if k \<in> set (map fst gs) then map fst gs else map fst gs @ [k])"
  by (induction gs) force+

lemma distinct_add_to_group:
  "distinct (map fst gs) \<Longrightarrow> distinct (map fst (add_to_group k v gs))"
  by (simp add: keys_add_to_group)

lemma map_of_add_to_group:
  "map_of (add_to_group k v gs) k' =
     (if k' = k then Some ((case map_of gs k of None \<Rightarrow> [] | Some vs \<Rightarrow> vs) @ [v])
      else map_of gs k')"
  by (induction gs) auto

lemma distinct_group_values:
  "distinct (map fst acc) \<Longrightarrow> distinct (map fst (group_values key val rs acc))"
  by (induction rs arbitrary: acc) (auto simp: distinct_add_to_group split: option.splits)

lemma map_of_group_values:
  "map_of (group_values key val rs acc) k =
     (if map_of acc k = None \<and> Some k \<notin> key ` set rs then None
      else Some ((case map_of acc k of None \<Rightarrow> [] | Some vs \<Rightarrow> vs)
                 @ map val (filter (\<lambda>r. key r = Some k) rs)))"
proof (induction rs arbitrary: acc)
  case Nil
  then show ?case by (simp split: option.splits)
next
  case (Cons r rs)
  show ?case
  proof (cases "key r")
    case None
    then show ?thesis using Cons.IH [of acc] by auto
  next
    case (Some k')
    then show ?thesis
      using Cons.IH [of "add_to_group k' (val r) acc"]
      by (auto simp: map_of_add_to_group image_iff split: option.splits)
  qed
qed

lemma distinct_keys_sort_key:
  "distinct (map f (sort_key f xs)) = distinct (map f xs)"
  by (induction xs) (auto simp: distinct_insort_key)

lemma map_of_sort_key:
  assumes "distinct (map fst xs)"
  shows "map_of (sort_key fst xs) = map_of xs"
proof -
  have "distinct (map fst (sort_key fst xs))"
    using assms by (simp add: distinct_keys_sort_key)
  then show ?thesis
    using assms by (simp add: map_of_inject_set)
qed

lemma keys_of_summed_groups: "fst \<circ> (\<lambda>(k, vs). (k, pd_sum vs)) = fst"
  by (auto simp: fun_eq_iff)

lemma sums_of_summed_groups: "snd \<circ> (\<lambda>(k, vs). (k, pd_sum vs)) = pd_sum \<circ> snd"
  by (auto simp: fun_eq_iff)

lemma distinct_groupby_sum: "distinct (map fst (groupby_sum pd_sum key val t))"
  by (simp add: groupby_sum_def distinct_keys_sort_key keys_of_summed_groups
        distinct_group_values)

lemma sorted_groupby_sum: "sorted (map fst (groupby_sum pd_sum key val t))"
  by (simp add: groupby_sum_def)

lemma map_of_groupby_sum:
  "map_of (groupby_sum pd_sum key val t) k =
     (if Some k \<in> key ` set t
      then Some (pd_sum (map val (filter (\<lambda>r. key r = Some k) t)))
      else None)"
proof -
  have "distinct (map fst (map (\<lambda>(k, vs). (k, pd_sum vs)) (group_values key val t [])))"
    by (simp add: keys_of_summed_groups distinct_group_values)
  then have "map_of (groupby_sum pd_sum key val t) k =
      map_of (map (\<lambda>(k, vs). (k, pd_sum vs)) (group_values key val t [])) k"
    by (simp add: groupby_sum_def map_of_sort_key)
  also have "\<dots> = map_option pd_sum (map_of (group_values key val t []) k)"
    by (simp add: map_of_map)
  finally show ?thesis
    by (simp add: map_of_group_values)
qed

text \<open>
  Claim C3. For the filtered table \<open>f\<close>, \<open>category_df\<close> has one row for each distinct
  Category value of \<open>f\<close>, in key order, and no other row; the row of the value \<open>k\<close>
  carries the library's sum of the Sales cells of exactly the rows of \<open>f\<close> whose
  Category is \<open>k\<close>, taken in row order. \<open>region_df\<close> is the same with Region for
  Category. What the sum of a list of cells is (float64 or int64 arithmetic) is the
  library's.
\<close>

theorem group_by_sum_of_filtered_rows:
  "distinct (map fst (category_df pd_sum f)) \<and> sorted (map fst (category_df pd_sum f))
   \<and> map_of (category_df pd_sum f) k =
       (if Some k \<in> Category ` set f
        then Some (pd_sum (map Sales (filter (\<lambda>r. Category r = Some k) f))) else None)
   \<and> distinct (map fst (region_df pd_sum f)) \<and> sorted (map fst (region_df pd_sum f))
   \<and> map_of (region_df pd_sum f) k =
       (if Some k \<in> Region ` set f
        then Some (pd_sum (map Sales (filter (\<lambda>r. Region r = Some k) f))) else None)"
  by (simp add: category_df_def region_df_def distinct_groupby_sum sorted_groupby_sum
        map_of_groupby_sum)

theorem group_by_sum_of_filtered_rows_witness:
  "map_of (category_df ex_pd_sum (df ex_to_datetime 3 40 ex_loaded)) ''Furniture'' = Some (Some 11)
   \<and> map_of (region_df ex_pd_sum (df ex_to_datetime 3 40 ex_loaded)) ''East'' = Some (Some 14)
   \<and> map_of (category_df ex_pd_sum (df ex_to_datetime 3 40 ex_loaded)) ''Office'' = None"
proof -
  have d: "df ex_to_datetime 3 40 ex_loaded =
      map (coerce_row ex_to_datetime (map Order_Date ex_loaded))
        [ex_loaded ! 0, ex_loaded ! 2, ex_loaded ! 3, ex_loaded ! 4, ex_loaded ! 5]"
    by (simp add: df_def date_range_filter_def dropna_Order_Date_def fix_date_parsing_def
          ex_loaded_def ex_to_datetime_def coerce_row_def date_ge_def date_le_def)
  note furniture = group_by_sum_of_filtered_rows
    [of ex_pd_sum "df ex_to_datetime 3 40 ex_loaded" "''Furniture''"]
  note east = group_by_sum_of_filtered_rows
    [of ex_pd_sum "df ex_to_datetime 3 40 ex_loaded" "''East''"]
  note office = group_by_sum_of_filtered_rows
    [of ex_pd_sum "df ex_to_datetime 3 40 ex_loaded" "''Office''"]
  have a: "map_of (category_df ex_pd_sum (df ex_to_datetime 3 40 ex_loaded)) ''Furniture''
      = Some (Some 11)"
    using furniture unfolding d
    by (simp add: ex_loaded_def coerce_row_def ex_pd_sum_def)
  have b: "map_of (region_df ex_pd_sum (df ex_to_datetime 3 40 ex_loaded)) ''East''
      = Some (Some 14)"
    using east unfolding d
    by (simp add: ex_loaded_def coerce_row_def ex_pd_sum_def)
  have c: "map_of (category_df ex_pd_sum (df ex_to_datetime 3 40 ex_loaded)) ''Office'' = None"
    using office unfolding d
    by (simp add: ex_loaded_def coerce_row_def)
  from a b c show ?thesis by simp
qed

text \<open>
  The tables of the small data set, dates 3 to 40, nothing selected in the sidebar: the
  row with no Category is in no group of \<open>category_df\<close>.
\<close>

lemma ex_tables:
  "category_df ex_pd_sum (df ex_to_datetime 3 40 ex_loaded) =
     [(''Furniture'', Some 11), (''Technology'', Some (5 / 2))]
   \<and> region_df ex_pd_sum (df ex_to_datetime 3 40 ex_loaded) =
     [(''East'', Some 14), (''West'', Some (7 / 2))]
   \<and> linechart ex_pd_sum ex_strftime_Y_b
       (with_month_year ex_to_period_M (df ex_to_datetime 3 40 ex_loaded)) =
     [(''2020-Feb'', Some 1), (''2020-Jan'', Some (33 / 2))]"
  by (simp add: df_def date_range_filter_def dropna_Order_Date_def fix_date_parsing_def
        ex_loaded_def ex_to_datetime_def coerce_row_def date_ge_def date_le_def
        category_df_def region_df_def linechart_def with_month_year_def add_column_def
        last_added_def groupby_sum_def ex_to_period_M_def ex_strftime_Y_b_def ex_pd_sum_def)

text \<open>
  When the cells are numbers whose addition is exact (or wraps around, as machine
  integers do) and the library's sum is their sum, the group sums add up to the total of
  the rows that have a key. Nothing of the kind is said for floating point sums.
\<close>

lemma sum_concat_add_to_group:
  "sum_list (concat (map snd (add_to_group k v gs))) = sum_list (concat (map snd gs)) + v"
  for v :: "'a::comm_monoid_add"
  by (induction gs) (auto simp: ac_simps)

lemma sum_concat_group_values:
  "sum_list (concat (map snd (group_values key val rs acc))) =
     sum_list (concat (map snd acc)) + sum_list (map val (filter (\<lambda>r. key r \<noteq> None) rs))"
  for val :: "'r \<Rightarrow> 'a::comm_monoid_add"
  by (induction rs arbitrary: acc)
     (auto simp: sum_concat_add_to_group ac_simps split: option.splits)

lemma sum_insort_key:
  "sum_list (map g (insort_key f x xs)) = g x + sum_list (map g xs)"
  for g :: "'b \<Rightarrow> 'a::comm_monoid_add"
  by (induction xs) (auto simp: ac_simps)

lemma sum_sort_key:
  "sum_list (map g (sort_key f xs)) = sum_list (map g xs)"
  for g :: "'b \<Rightarrow> 'a::comm_monoid_add"
  by (induction xs) (auto simp: sum_insort_key)

lemma sum_of_group_sums:
  "sum_list (map (sum_list \<circ> snd) gs) = sum_list (concat (map snd gs))"
  for gs :: "('k \<times> 'a::comm_monoid_add list) list"
  by (induction gs) auto

lemma exact_group_sums_add_up:
  "sum_list (map snd (groupby_sum sum_list key val t)) =
     sum_list (map val (filter (\<lambda>r. key r \<noteq> None) t))"
  for val :: "'r \<Rightarrow> 'a::comm_monoid_add"
  by (simp add: groupby_sum_def sum_sort_key sums_of_summed_groups sum_of_group_sums
        sum_concat_group_values)

subsection \<open>Loading the table\<close>

lemma endswith_last:
  assumes "endswith s suffix" and "suffix \<noteq> []"
  shows "last s = last suffix"
proof -
  from assms have d: "drop (length s - length suffix) s = suffix" and "length suffix \<le> length s"
    by (simp_all add: endswith_def)
  with assms(2) have "length s - length suffix < length s"
    by (cases suffix) auto
  then have "last (drop (length s - length suffix) s) = last s"
    by (rule last_drop)
  with d show ?thesis by simp
qed

lemma excel_name_is_not_csv:
  assumes "endswith s ''.xlsx'' \<or> endswith s ''.xls''"
  shows "\<not> endswith s ''.csv'' \<and> \<not> endswith s ''.txt''"
proof -
  from assms have "last s = CHR ''x'' \<or> last s = CHR ''s''"
    by (auto dest: endswith_last)
  then show ?thesis
    by (auto dest: endswith_last)
qed

text \<open>
  Claim C5. The upload input takes the extensions csv, txt, xlsx and xls. An uploaded
  file whose name ends in .csv or .txt is read by the CSV reader with the encoding
  ISO-8859-1; every other upload is read by the Excel reader, and so is every upload
  whose name ends in .xlsx or .xls.
\<close>

theorem upload_reader_by_extension:
  "St_file_uploader '':file_folder: Upload a file'' [''csv'', ''txt'', ''xlsx'', ''xls'']
     \<in> set (fst (file_upload_section pd path_exists fl))
   \<and> (endswith (name f) ''.csv'' \<or> endswith (name f) ''.txt'' \<longrightarrow>
        snd (file_upload_section pd path_exists (Some f)) =
          run_reader pd (Read_csv (Uploaded f) ''ISO-8859-1''))
   \<and> (\<not> endswith (name f) ''.csv'' \<and> \<not> endswith (name f) ''.txt'' \<longrightarrow>
        snd (file_upload_section pd path_exists (Some f)) =
          run_reader pd (Read_excel (Uploaded f)))
   \<and> (endswith (name f) ''.xlsx'' \<or> endswith (name f) ''.xls'' \<longrightarrow>
        snd (file_upload_section pd path_exists (Some f)) =
          run_reader pd (Read_excel (Uploaded f)))"
proof -
  have shown: "St_file_uploader '':file_folder: Upload a file''
      [''csv'', ''txt'', ''xlsx'', ''xls''] \<in> set (fst (file_upload_section pd path_exists fl))"
    by (simp add: file_upload_section_def upload_types_def split: option.splits)
  have reader: "snd (file_upload_section pd path_exists (Some f)) =
      run_reader pd (upload_reader f)"
    by (simp add: file_upload_section_def)
  have excel: "endswith (name f) ''.xlsx'' \<or> endswith (name f) ''.xls'' \<Longrightarrow>
      upload_reader f = Read_excel (Uploaded f)"
    using excel_name_is_not_csv [of "name f"] by (simp add: upload_reader_def)
  show ?thesis
    using shown excel by (auto simp: reader upload_reader_def)
qed

theorem upload_reader_by_extension_witness:
  "snd (file_upload_section ex_pd (\<lambda>p. False) (Some ex_upload)) = Next ex_loaded
   \<and> snd (file_upload_section ex_pd (\<lambda>p. False) (Some ex_workbook)) = Raise ''ValueError''
   \<and> endswith (name ex_upload) ''.csv'' \<and> endswith (name ex_workbook) ''.xlsx''"
proof -
  have csv: "endswith (name ex_upload) ''.csv''"
    by (simp add: ex_upload_def endswith_def)
  have xlsx: "endswith (name ex_workbook) ''.xlsx''"
    by (simp add: ex_workbook_def endswith_def)
  from csv upload_reader_by_extension [of ex_pd "\<lambda>p. False" None ex_upload]
  have a: "snd (file_upload_section ex_pd (\<lambda>p. False) (Some ex_upload)) =
      run_reader ex_pd (Read_csv (Uploaded ex_upload) ''ISO-8859-1'')"
    by blast
  from xlsx upload_reader_by_extension [of ex_pd "\<lambda>p. False" None ex_workbook]
  have b: "snd (file_upload_section ex_pd (\<lambda>p. False) (Some ex_workbook)) =
      run_reader ex_pd (Read_excel (Uploaded ex_workbook))"
    by blast
  show ?thesis
    using csv xlsx by (simp add: a b run_reader_def ex_pd_def)
qed

subsection \<open>Statements that raise\<close>

lemma exec_completes_iff:
  fixes s :: "('v, 'z, 'b) statement" and ss :: "('v, 'z, 'b) statement list"
  shows "snd (exec raises s) = None \<longleftrightarrow> (\<forall>n \<in> set (lines_of s). raises n = None)"
    and "snd (exec_all raises ss) = None
     \<longleftrightarrow> (\<forall>n \<in> set (concat (map lines_of ss)). raises n = None)"
  by (induction raises s and raises ss rule: exec_exec_all.induct)
     (auto simp: ball_Un split: option.splits prod.splits)

lemma exec_shown_when_complete:
  fixes s :: "('v, 'z, 'b) statement" and ss :: "('v, 'z, 'b) statement list"
  shows "snd (exec raises s) = None \<Longrightarrow> fst (exec raises s) = shown_by s"
    and "snd (exec_all raises ss) = None \<Longrightarrow> fst (exec_all raises ss) = concat (map shown_by ss)"
  by (induction raises s and raises ss rule: exec_exec_all.induct)
     (auto split: option.splits prod.splits)

lemma dashboard_after_load:
  assumes "load_table pd path_exists import_error fl = (shown, Next loaded)"
  shows "dashboard pd path_exists to_datetime to_period_M strftime_Y_b pd_sum to_csv encode
           raises import_error fl date1 date2 region state city =
         (shown @ fst (exec_all raises
                        (statements to_datetime to_period_M strftime_Y_b pd_sum to_csv encode
                           date1 date2 region state city loaded)),
          case snd (exec_all raises
                      (statements to_datetime to_period_M strftime_Y_b pd_sum to_csv encode
                         date1 date2 region state city loaded)) of
            None \<Rightarrow> Next () | Some x \<Rightarrow> Raise x)"
  using assms by (simp add: dashboard_def split: prod.splits option.splits)

lemma load_table_cases:
  "load_table pd path_exists import_error fl =
     (case import_error of
        Some e \<Rightarrow>
          ([St_error ''Required package 'plotly' is not installed or failed to import.'',
            St_info ''Install it using: `pip install plotly`'',
            St_write (''Import error: '' @ e)], Stop)
      | None \<Rightarrow>
          ([St_set_page_config ''Superstore Dashboard'' '':bar_chart:'' ''wide'',
            St_title '':bar_chart: Sample SuperStore EDA'',
            St_markdown ''<style>div.block-container{padding-top:1rem;}</style>'']
           @ fst (file_upload_section pd path_exists fl),
           (case fl of
              Some f \<Rightarrow> run_reader pd (upload_reader f)
            | None \<Rightarrow>
                if path_exists default_path
                then run_reader pd (Read_csv (Local_path default_path) ''ISO-8859-1'')
                else Stop)))"
  by (simp add: load_table_def import_plotly_def file_upload_section_def
        split: option.splits prod.splits)

text \<open>
  Claim C4. A run of the script ends at \<open>st.stop()\<close> in exactly two cases: the plotly
  import raised, or no file was uploaded and the default path does not exist. In the
  first case the error, the install hint and the exception text are all that is shown;
  in the second the page ends with the error, after the page setup and the upload input.
  Nothing else is caught. A run ends with the exception \<open>x\<close> exactly when the import
  succeeded and either the reader call of the upload section raised \<open>x\<close>, or it returned
  a table and \<open>x\<close> is the first exception a statement of lines 45-162 raised. A run goes
  through to the end exactly when the import succeeded, the reader returned a table and
  no statement of lines 45-162 raised.
\<close>

theorem stops_in_two_checked_cases:
  fixes pd :: "read_call \<Rightarrow> string + ('raw, 'v, 'z) table"
    and to_csv :: "('v, 'z) dataframe \<Rightarrow> bool \<Rightarrow> string"
    and encode :: "string \<Rightarrow> string \<Rightarrow> 'b"
    and path_exists to_datetime to_period_M strftime_Y_b pd_sum raises
      import_error fl date1 date2 region state city
  defines "run \<equiv> dashboard pd path_exists to_datetime to_period_M strftime_Y_b pd_sum
      to_csv encode raises import_error fl date1 date2 region state city"
  defines "read \<equiv> (case fl of
        Some f \<Rightarrow> pd (upload_reader f)
      | None \<Rightarrow> pd (Read_csv (Local_path default_path) ''ISO-8859-1''))"
  defines "script \<equiv> statements to_datetime to_period_M strftime_Y_b pd_sum to_csv encode
      date1 date2 region state city"
  shows
  "(snd run = Stop \<longleftrightarrow> import_error \<noteq> None \<or> (fl = None \<and> \<not> path_exists default_path))
   \<and> (import_error = Some e \<longrightarrow>
        fst run =
          [St_error ''Required package 'plotly' is not installed or failed to import.'',
           St_info ''Install it using: `pip install plotly`'',
           St_write (''Import error: '' @ e)])
   \<and> (import_error = None \<and> fl = None \<and> \<not> path_exists default_path \<longrightarrow>
        fst run =
          [St_set_page_config ''Superstore Dashboard'' '':bar_chart:'' ''wide'',
           St_title '':bar_chart: Sample SuperStore EDA'',
           St_markdown ''<style>div.block-container{padding-top:1rem;}</style>'',
           St_file_uploader '':file_folder: Upload a file'' upload_types,
           St_error ''Default dataset not found. Please upload a file.''])
   \<and> (snd run = Raise x \<longleftrightarrow>
        import_error = None \<and> (fl \<noteq> None \<or> path_exists default_path)
        \<and> (read = Inl x
           \<or> (\<exists>loaded. read = Inr loaded \<and> snd (exec_all raises (script loaded)) = Some x)))
   \<and> (snd run = Next () \<longleftrightarrow>
        import_error = None \<and> (fl \<noteq> None \<or> path_exists default_path)
        \<and> (\<exists>loaded. read = Inr loaded
              \<and> (\<forall>n \<in> set (concat (map lines_of (script loaded))). raises n = None)))"
proof (cases import_error)
  case (Some e')
  then show ?thesis
    by (simp add: run_def dashboard_def load_table_cases)
next
  case None
  show ?thesis
  proof (cases "fl = None \<and> \<not> path_exists default_path")
    case True
    with None show ?thesis
      by (simp add: run_def dashboard_def load_table_cases file_upload_section_def)
  next
    case False
    then have load: "(load_table pd path_exists import_error fl
          :: ('v, 'z, 'b) element list \<times> ('raw, 'v, 'z) table step) =
        ([St_set_page_config ''Superstore Dashboard'' '':bar_chart:'' ''wide'',
          St_title '':bar_chart: Sample SuperStore EDA'',
          St_markdown ''<style>div.block-container{padding-top:1rem;}</style>'']
         @ fst (file_upload_section pd path_exists fl),
         case read of Inl e \<Rightarrow> Raise e | Inr t \<Rightarrow> Next t)"
      using None
      by (auto simp: load_table_cases file_upload_section_def run_reader_def read_def
            split: option.splits)
    show ?thesis
    proof (cases read)
      case (Inl e')
      with load None False show ?thesis
        by (auto simp: run_def dashboard_def)
    next
      case (Inr loaded)
      with load have "(load_table pd path_exists import_error fl
            :: ('v, 'z, 'b) element list \<times> ('raw, 'v, 'z) table step) =
          ([St_set_page_config ''Superstore Dashboard'' '':bar_chart:'' ''wide'',
            St_title '':bar_chart: Sample SuperStore EDA'',
            St_markdown ''<style>div.block-container{padding-top:1rem;}</style>'']
           @ fst (file_upload_section pd path_exists fl), Next loaded)"
        by simp
      from dashboard_after_load
        [OF this, of to_datetime to_period_M strftime_Y_b pd_sum to_csv encode raises
          date1 date2 region state city]
      have r: "snd run = (case snd (exec_all raises (script loaded)) of
          None \<Rightarrow> Next () | Some x \<Rightarrow> Raise x)"
        by (simp add: run_def script_def)
      have c: "snd (exec_all raises (script loaded)) = None
          \<longleftrightarrow> (\<forall>n \<in> set (concat (map lines_of (script loaded))). raises n = None)"
        by (rule exec_completes_iff)
      from None False Inr r c show ?thesis
        by (auto split: option.splits)
    qed
  qed
qed

theorem stops_in_two_checked_cases_witness:
  "dashboard ex_pd (\<lambda>p. False) ex_to_datetime ex_to_period_M ex_strftime_Y_b ex_pd_sum
     ex_to_csv ex_encode ex_no_exception (Some ''No module named 'plotly' '') None
     3 40 [] [] [] =
     ([St_error ''Required package 'plotly' is not installed or failed to import.'',
       St_info ''Install it using: `pip install plotly`'',
       St_write ''Import error: No module named 'plotly' ''], Stop)
   \<and> dashboard ex_pd (\<lambda>p. False) ex_to_datetime ex_to_period_M ex_strftime_Y_b ex_pd_sum
     ex_to_csv ex_encode ex_no_exception None None 3 40 [] [] [] =
     ([St_set_page_config ''Superstore Dashboard'' '':bar_chart:'' ''wide'',
       St_title '':bar_chart: Sample SuperStore EDA'',
       St_markdown ''<style>div.block-container{padding-top:1rem;}</style>'',
       St_file_uploader '':file_folder: Upload a file'' [''csv'', ''txt'', ''xlsx'', ''xls''],
       St_error ''Default dataset not found. Please upload a file.''], Stop)
   \<and> snd (dashboard ex_pd (\<lambda>p. False) ex_to_datetime ex_to_period_M ex_strftime_Y_b
          ex_pd_sum ex_to_csv ex_encode ex_no_exception None (Some ex_workbook)
          3 40 [] [] []) = Raise ''ValueError''
   \<and> snd (dashboard ex_pd (\<lambda>p. False) ex_to_datetime ex_to_period_M ex_strftime_Y_b
          ex_pd_sum ex_to_csv ex_encode ex_treemap_raises None (Some ex_upload)
          3 40 [] [] []) = Raise ''ValueError''
   \<and> snd (dashboard ex_pd (\<lambda>p. False) ex_to_datetime ex_to_period_M ex_strftime_Y_b
          ex_pd_sum ex_to_csv ex_encode ex_no_exception None (Some ex_upload)
          7 40 [Some ''West''] [] []) = Next ()"
proof -
  note a = stops_in_two_checked_cases
    [of ex_pd "\<lambda>p. False" ex_to_datetime ex_to_period_M ex_strftime_Y_b ex_pd_sum
      ex_to_csv ex_encode ex_no_exception "Some ''No module named 'plotly' ''" None
      3 40 "[]" "[]" "[]" "''No module named 'plotly' ''" "''ValueError''"]
  note b = stops_in_two_checked_cases
    [of ex_pd "\<lambda>p. False" ex_to_datetime ex_to_period_M ex_strftime_Y_b ex_pd_sum
      ex_to_csv ex_encode ex_no_exception None None 3 40 "[]" "[]" "[]"
      "''''" "''ValueError''"]
  note c = stops_in_two_checked_cases
    [of ex_pd "\<lambda>p. False" ex_to_datetime ex_to_period_M ex_strftime_Y_b ex_pd_sum
      ex_to_csv ex_encode ex_no_exception None "Some ex_workbook" 3 40 "[]" "[]" "[]"
      "''''" "''ValueError''"]
  note d = stops_in_two_checked_cases
    [of ex_pd "\<lambda>p. False" ex_to_datetime ex_to_period_M ex_strftime_Y_b ex_pd_sum
      ex_to_csv ex_encode ex_treemap_raises None "Some ex_upload" 3 40 "[]" "[]" "[]"
      "''''" "''ValueError''"]
  note e = stops_in_two_checked_cases
    [of ex_pd "\<lambda>p. False" ex_to_datetime ex_to_period_M ex_strftime_Y_b ex_pd_sum
      ex_to_csv ex_encode ex_no_exception None "Some ex_upload" 7 40 "[Some ''West'']"
      "[]" "[]" "''''" "''ValueError''"]
  have wb: "ex_pd (upload_reader ex_workbook) = Inl ''ValueError''"
    by (simp add: upload_reader_def ex_workbook_def endswith_def ex_pd_def)
  have up: "ex_pd (upload_reader ex_upload) = Inr ex_loaded"
    by (simp add: upload_reader_def ex_upload_def endswith_def ex_pd_def)
  have cut: "snd (exec_all ex_treemap_raises
      (statements ex_to_datetime ex_to_period_M ex_strftime_Y_b ex_pd_sum ex_to_csv ex_encode
         3 40 [] [] [] ex_loaded)) = Some ''ValueError''"
    by (simp add: statements_def Let_def ex_treemap_raises_def)
  have r1: "dashboard ex_pd (\<lambda>p. False) ex_to_datetime ex_to_period_M ex_strftime_Y_b
       ex_pd_sum ex_to_csv ex_encode ex_no_exception (Some ''No module named 'plotly' '') None
       3 40 [] [] [] =
     ([St_error ''Required package 'plotly' is not installed or failed to import.'',
       St_info ''Install it using: `pip install plotly`'',
       St_write ''Import error: No module named 'plotly' ''], Stop)"
    using a by (simp add: prod_eq_iff)
  have r2: "dashboard ex_pd (\<lambda>p. False) ex_to_datetime ex_to_period_M ex_strftime_Y_b
       ex_pd_sum ex_to_csv ex_encode ex_no_exception None None 3 40 [] [] [] =
     ([St_set_page_config ''Superstore Dashboard'' '':bar_chart:'' ''wide'',
       St_title '':bar_chart: Sample SuperStore EDA'',
       St_markdown ''<style>div.block-container{padding-top:1rem;}</style>'',
       St_file_uploader '':file_folder: Upload a file'' [''csv'', ''txt'', ''xlsx'', ''xls''],
       St_error ''Default dataset not found. Please upload a file.''], Stop)"
    using b by (simp add: prod_eq_iff upload_types_def)
  have r3: "snd (dashboard ex_pd (\<lambda>p. False) ex_to_datetime ex_to_period_M ex_strftime_Y_b
          ex_pd_sum ex_to_csv ex_encode ex_no_exception None (Some ex_workbook)
          3 40 [] [] []) = Raise ''ValueError''"
    using c wb by simp
  have r4: "snd (dashboard ex_pd (\<lambda>p. False) ex_to_datetime ex_to_period_M ex_strftime_Y_b
          ex_pd_sum ex_to_csv ex_encode ex_treemap_raises None (Some ex_upload)
          3 40 [] [] []) = Raise ''ValueError''"
    using d up cut by simp
  have r5: "snd (dashboard ex_pd (\<lambda>p. False) ex_to_datetime ex_to_period_M ex_strftime_Y_b
          ex_pd_sum ex_to_csv ex_encode ex_no_exception None (Some ex_upload)
          7 40 [Some ''West''] [] []) = Next ()"
    using e up by (simp add: ex_no_exception_def)
  from r1 r2 r3 r4 r5 show ?thesis by blast
qed

subsection \<open>Downloads\<close>

lemma load_shows_no_table:
  assumes "load_table pd path_exists import_error fl = (shown, Next loaded)"
  shows "concat (map download_buttons shown) = []"
    and "concat (map written_tables shown) = []"
  using assms
  by (auto simp: load_table_cases file_upload_section_def split: option.splits if_splits)

lemma buttons_of_cut_page:
  fixes s :: "('v, 'z, 'b) statement" and ss :: "('v, 'z, 'b) statement list"
  shows "set (concat (map download_buttons (fst (exec raises s))))
      \<subseteq> set (concat (map download_buttons (shown_by s)))"
    and "set (concat (map download_buttons (fst (exec_all raises ss))))
      \<subseteq> set (concat (map download_buttons (concat (map shown_by ss))))"
  by (induction raises s and raises ss rule: exec_exec_all.induct)
     (fastforce split: option.splits prod.splits)+

lemma buttons_of_statements:
  "concat (map download_buttons (concat (map shown_by
      (statements to_datetime to_period_M strftime_Y_b pd_sum to_csv encode
         date1 date2 region state city loaded)))) =
     [(''Category.csv'',
       encode (to_csv (Grouped ''Category'' ''Sales''
         (category_df pd_sum
            (filtered_df (df to_datetime date1 date2 loaded) region state city))) False)
         ''utf-8''),
      (''Region.csv'',
       encode (to_csv (Grouped ''Region'' ''Sales''
         (region_df pd_sum
            (filtered_df (df to_datetime date1 date2 loaded) region state city))) False)
         ''utf-8''),
      (''TimeSeries.csv'',
       encode (to_csv (Grouped ''month_year'' ''Sales''
         (linechart pd_sum strftime_Y_b (with_month_year to_period_M
            (filtered_df (df to_datetime date1 date2 loaded) region state city)))) False)
         ''utf-8''),
      (''Data.csv'',
       encode (to_csv (Records (df to_datetime date1 date2 loaded)) False) ''utf-8'')]"
  by (simp add: statements_def Let_def download_button_csv_def)

lemma tables_of_statements:
  "concat (map written_tables (concat (map shown_by
      (statements to_datetime to_period_M strftime_Y_b pd_sum to_csv encode
         date1 date2 region state city loaded)))) =
     [Style (Grouped ''Category'' ''Sales''
        (category_df pd_sum
           (filtered_df (df to_datetime date1 date2 loaded) region state city))) ''Blues'',
      Style (Grouped ''Region'' ''Sales''
        (region_df pd_sum
           (filtered_df (df to_datetime date1 date2 loaded) region state city))) ''Oranges'',
      Style_T (Grouped ''month_year'' ''Sales''
        (linechart pd_sum strftime_Y_b (with_month_year to_period_M
           (filtered_df (df to_datetime date1 date2 loaded) region state city)))) ''Blues'',
      Style (Pivot_table ''Sales'' ''Sub-Category'' ''month'') ''Blues'']"
  by (simp add: statements_def Let_def download_button_csv_def)

lemma page_of_complete_run:
  assumes "load_table pd path_exists import_error fl = (shown, Next loaded)"
    and "snd (dashboard pd path_exists to_datetime to_period_M strftime_Y_b pd_sum to_csv
               encode raises import_error fl date1 date2 region state city) = Next ()"
  shows "fst (dashboard pd path_exists to_datetime to_period_M strftime_Y_b pd_sum to_csv
               encode raises import_error fl date1 date2 region state city) =
         shown @ concat (map shown_by
           (statements to_datetime to_period_M strftime_Y_b pd_sum to_csv encode
              date1 date2 region state city loaded))"
proof -
  note run = dashboard_after_load
    [OF assms(1), of to_datetime to_period_M strftime_Y_b pd_sum to_csv encode raises
      date1 date2 region state city]
  from assms(2) have "snd (exec_all raises
      (statements to_datetime to_period_M strftime_Y_b pd_sum to_csv encode
         date1 date2 region state city loaded)) = None"
    by (simp add: run split: option.splits)
  then show ?thesis
    by (simp add: run exec_shown_when_complete)
qed

lemma ex_load:
  "load_table ex_pd (\<lambda>p. False) None (Some ex_upload) =
     ([St_set_page_config ''Superstore Dashboard'' '':bar_chart:'' ''wide'',
       St_title '':bar_chart: Sample SuperStore EDA'',
       St_markdown ''<style>div.block-container{padding-top:1rem;}</style>'',
       St_file_uploader '':file_folder: Upload a file'' upload_types,
       St_write ''Uploaded File: sales.csv''], Next ex_loaded)"
  by (simp add: load_table_cases file_upload_section_def run_reader_def upload_reader_def
        ex_upload_def endswith_def ex_pd_def)

lemma ex_run_completes:
  "snd (dashboard ex_pd (\<lambda>p. False) ex_to_datetime ex_to_period_M ex_strftime_Y_b ex_pd_sum
          ex_to_csv ex_encode ex_no_exception None (Some ex_upload)
          7 40 [Some ''West''] [] []) = Next ()"
  by (simp add: dashboard_after_load [OF ex_load] exec_completes_iff ex_no_exception_def
        split: option.splits)

text \<open>
  Claim C6, as stated, fails: the run of the small data set that goes through to the end
  writes the pivot table of Sub-Category by month, styled like the other tables, and none
  of its four download buttons carries that table.
\<close>

theorem pivot_table_has_no_download:
  "Style (Pivot_table ''Sales'' ''Sub-Category'' ''month'') ''Blues''
     \<in> set (concat (map written_tables
          (fst (dashboard ex_pd (\<lambda>p. False) ex_to_datetime ex_to_period_M ex_strftime_Y_b
                  ex_pd_sum ex_to_csv ex_encode ex_no_exception None (Some ex_upload)
                  7 40 [Some ''West''] [] []))))
   \<and> map fst (concat (map download_buttons
          (fst (dashboard ex_pd (\<lambda>p. False) ex_to_datetime ex_to_period_M ex_strftime_Y_b
                  ex_pd_sum ex_to_csv ex_encode ex_no_exception None (Some ex_upload)
                  7 40 [Some ''West''] [] [])))) =
       [''Category.csv'', ''Region.csv'', ''TimeSeries.csv'', ''Data.csv'']
   \<and> ex_encode (ex_to_csv (Pivot_table ''Sales'' ''Sub-Category'' ''month'') False) ''utf-8''
     \<notin> snd ` set (concat (map download_buttons
          (fst (dashboard ex_pd (\<lambda>p. False) ex_to_datetime ex_to_period_M ex_strftime_Y_b
                  ex_pd_sum ex_to_csv ex_encode ex_no_exception None (Some ex_upload)
                  7 40 [Some ''West''] [] []))))"
  by (simp add: page_of_complete_run [OF ex_load ex_run_completes]
        load_shows_no_table [OF ex_load] buttons_of_statements tables_of_statements
        ex_to_csv_def ex_encode_def)

text \<open>
  Claim C6, amended. On a run that goes through to the end, each of the three tables
  category-wise sales, region-wise sales and monthly time series stands in an expander
  next to a download button whose data is the UTF-8 encoding of \<open>to_csv(index=False)\<close>
  of that same table, the group-by of the filtered table; the time series is written
  transposed. The pivot table of the Summary expander is written with no button. The
  styled tables of the page are these four, its download buttons the three of the
  aggregate tables and the one of \<open>df\<close>.
\<close>

theorem aggregate_tables_are_downloadable:
  fixes shown :: "('v, 'z, 'b) element list"
    and to_csv :: "('v, 'z) dataframe \<Rightarrow> bool \<Rightarrow> string"
    and encode :: "string \<Rightarrow> string \<Rightarrow> 'b"
    and loaded :: "('raw, 'v, 'z) table"
    and pd path_exists to_datetime to_period_M strftime_Y_b pd_sum raises
      import_error fl date1 date2 region state city
  defines "page \<equiv> fst (dashboard pd path_exists to_datetime to_period_M strftime_Y_b pd_sum
      to_csv encode raises import_error fl date1 date2 region state city)"
  defines "f \<equiv> filtered_df (df to_datetime date1 date2 loaded) region state city"
  defines "category_data \<equiv> Grouped ''Category'' ''Sales'' (category_df pd_sum f)"
  defines "region_data \<equiv> Grouped ''Region'' ''Sales'' (region_df pd_sum f)"
  defines "time_series \<equiv> Grouped ''month_year'' ''Sales''
      (linechart pd_sum strftime_Y_b (with_month_year to_period_M f))"
  assumes "load_table pd path_exists import_error fl = (shown, Next loaded)"
    and "snd (dashboard pd path_exists to_datetime to_period_M strftime_Y_b pd_sum to_csv
               encode raises import_error fl date1 date2 region state city) = Next ()"
  shows
  "St_container (Column 1)
     [St_container (Expander ''Category Data'')
        [St_write_styled (Style category_data ''Blues''),
         St_download_button ''Download Category Data''
           (encode (to_csv category_data False) ''utf-8'') ''Category.csv'' ''text/csv'']]
     \<in> set page
   \<and> St_container (Column 2)
     [St_container (Expander ''Region Data'')
        [St_write_styled (Style region_data ''Oranges''),
         St_download_button ''Download Region Data''
           (encode (to_csv region_data False) ''utf-8'') ''Region.csv'' ''text/csv'']]
     \<in> set page
   \<and> St_container (Expander ''View Time Series Data'')
     [St_write_styled (Style_T time_series ''Blues''),
      St_download_button ''Download Time Series Data''
        (encode (to_csv time_series False) ''utf-8'') ''TimeSeries.csv'' ''text/csv'']
     \<in> set page
   \<and> St_container (Expander ''Summary Table'')
     [St_plotly_chart ''ff.create_table'',
      St_write_styled (Style (Pivot_table ''Sales'' ''Sub-Category'' ''month'') ''Blues'')]
     \<in> set page
   \<and> concat (map written_tables page) =
       [Style category_data ''Blues'', Style region_data ''Oranges'',
        Style_T time_series ''Blues'',
        Style (Pivot_table ''Sales'' ''Sub-Category'' ''month'') ''Blues'']
   \<and> concat (map download_buttons page) =
       [(''Category.csv'', encode (to_csv category_data False) ''utf-8''),
        (''Region.csv'', encode (to_csv region_data False) ''utf-8''),
        (''TimeSeries.csv'', encode (to_csv time_series False) ''utf-8''),
        (''Data.csv'',
         encode (to_csv (Records (df to_datetime date1 date2 loaded)) False) ''utf-8'')]"
proof -
  have page: "page = shown @ concat (map shown_by
      (statements to_datetime to_period_M strftime_Y_b pd_sum to_csv encode
         date1 date2 region state city loaded))"
    unfolding page_def using assms(6, 7) by (rule page_of_complete_run)
  have members: "St_container (Column 1)
     [St_container (Expander ''Category Data'')
        [St_write_styled (Style category_data ''Blues''),
         St_download_button ''Download Category Data''
           (encode (to_csv category_data False) ''utf-8'') ''Category.csv'' ''text/csv'']]
     \<in> set page
   \<and> St_container (Column 2)
     [St_container (Expander ''Region Data'')
        [St_write_styled (Style region_data ''Oranges''),
         St_download_button ''Download Region Data''
           (encode (to_csv region_data False) ''utf-8'') ''Region.csv'' ''text/csv'']]
     \<in> set page
   \<and> St_container (Expander ''View Time Series Data'')
     [St_write_styled (Style_T time_series ''Blues''),
      St_download_button ''Download Time Series Data''
        (encode (to_csv time_series False) ''utf-8'') ''TimeSeries.csv'' ''text/csv'']
     \<in> set page
   \<and> St_container (Expander ''Summary Table'')
     [St_plotly_chart ''ff.create_table'',
      St_write_styled (Style (Pivot_table ''Sales'' ''Sub-Category'' ''month'') ''Blues'')]
     \<in> set page"
    by (simp add: page statements_def Let_def download_button_csv_def category_data_def
          region_data_def time_series_def f_def)
  have tables: "concat (map written_tables page) =
       [Style category_data ''Blues'', Style region_data ''Oranges'',
        Style_T time_series ''Blues'',
        Style (Pivot_table ''Sales'' ''Sub-Category'' ''month'') ''Blues'']"
    by (simp add: page load_shows_no_table [OF assms(6)] tables_of_statements
          category_data_def region_data_def time_series_def f_def)
  have buttons: "concat (map download_buttons page) =
       [(''Category.csv'', encode (to_csv category_data False) ''utf-8''),
        (''Region.csv'', encode (to_csv region_data False) ''utf-8''),
        (''TimeSeries.csv'', encode (to_csv time_series False) ''utf-8''),
        (''Data.csv'',
         encode (to_csv (Records (df to_datetime date1 date2 loaded)) False) ''utf-8'')]"
    by (simp add: page load_shows_no_table [OF assms(6)] buttons_of_statements
          category_data_def region_data_def time_series_def f_def)
  from members tables buttons show ?thesis by simp
qed

theorem aggregate_tables_are_downloadable_witness:
  "St_container (Column 1)
     [St_container (Expander ''Category Data'')
        [St_write_styled (Style (Grouped ''Category'' ''Sales''
           [(''Furniture'', Some 1), (''Technology'', Some (5 / 2))]) ''Blues''),
         St_download_button ''Download Category Data'' ''Category,Sales;Furniture;Technology''
           ''Category.csv'' ''text/csv'']]
     \<in> set (fst (dashboard ex_pd (\<lambda>p. False) ex_to_datetime ex_to_period_M ex_strftime_Y_b
                  ex_pd_sum ex_to_csv ex_encode ex_no_exception None (Some ex_upload)
                  7 40 [Some ''West''] [] []))"
proof -
  have f: "filtered_df (df ex_to_datetime 7 40 ex_loaded) [Some ''West''] [] [] =
      map (coerce_row ex_to_datetime (map Order_Date ex_loaded)) [ex_loaded ! 2, ex_loaded ! 5]"
    by (simp add: filtered_df_def sidebar_filter_def isin_def df_def date_range_filter_def
          dropna_Order_Date_def fix_date_parsing_def ex_loaded_def ex_to_datetime_def
          coerce_row_def date_ge_def date_le_def)
  have c: "category_df ex_pd_sum
      [coerce_row ex_to_datetime (map Order_Date ex_loaded) (ex_loaded ! 2),
       coerce_row ex_to_datetime (map Order_Date ex_loaded) (ex_loaded ! 5)]
      = [(''Furniture'', Some 1), (''Technology'', Some (5 / 2))]"
    by (simp add: category_df_def groupby_sum_def ex_loaded_def coerce_row_def ex_pd_sum_def)
  from aggregate_tables_are_downloadable [OF ex_load ex_run_completes, THEN conjunct1]
  show ?thesis
    by (simp add: f c ex_to_csv_def ex_encode_def)
qed

text \<open>
  Claim C10. When the table \<open>loaded\<close> has been read, the data of the button "Download
  Original Data" is the CSV of \<open>df\<close> as it stands after the dates were parsed, the rows
  without a date dropped and the date range filter applied: not the table as loaded, and
  whatever the Region, State and City selections are. A run that goes through to the end
  shows the button last; on a run cut short by an exception, a button for Data.csv that
  is on the page has that data too.
\<close>

theorem original_data_download_is_date_filtered:
  fixes shown :: "('v, 'z, 'b) element list"
    and to_csv :: "('v, 'z) dataframe \<Rightarrow> bool \<Rightarrow> string"
    and encode :: "string \<Rightarrow> string \<Rightarrow> 'b"
    and loaded :: "('raw, 'v, 'z) table"
    and pd path_exists to_datetime to_period_M strftime_Y_b pd_sum raises
      import_error fl date1 date2 region state city
  defines "run \<equiv> dashboard pd path_exists to_datetime to_period_M strftime_Y_b pd_sum
      to_csv encode raises import_error fl date1 date2 region state city"
  defines "data \<equiv> encode (to_csv (Records (date_range_filter date1 date2
      (dropna_Order_Date (fix_date_parsing to_datetime loaded)))) False) ''utf-8''"
  assumes "load_table pd path_exists import_error fl = (shown, Next loaded)"
  shows "(snd run = Next () \<longrightarrow>
            last (fst run) =
              St_download_button ''Download Original Data'' data ''Data.csv'' ''text/csv'')
         \<and> (\<forall>bytes. (''Data.csv'', bytes) \<in> set (concat (map download_buttons (fst run)))
               \<longrightarrow> bytes = data)"
proof -
  let ?script = "statements to_datetime to_period_M strftime_Y_b pd_sum to_csv encode
      date1 date2 region state city loaded"
  note after = dashboard_after_load
    [OF assms(3), of to_datetime to_period_M strftime_Y_b pd_sum to_csv encode raises
      date1 date2 region state city]
  have last: "last (fst run) =
      St_download_button ''Download Original Data'' data ''Data.csv'' ''text/csv''"
    if "snd run = Next ()"
  proof -
    from that have "fst run = shown @ concat (map shown_by ?script)"
      unfolding run_def using assms(3) by (intro page_of_complete_run)
    then show ?thesis
      by (simp add: statements_def Let_def download_button_csv_def data_def df_def)
  qed
  have "set (concat (map download_buttons (fst run)))
      \<subseteq> set (concat (map download_buttons (concat (map shown_by ?script))))"
    using buttons_of_cut_page(2) [of raises ?script]
    by (simp add: run_def after load_shows_no_table [OF assms(3)])
  then have "bytes = data"
    if "(''Data.csv'', bytes) \<in> set (concat (map download_buttons (fst run)))" for bytes
    using that by (auto simp: buttons_of_statements data_def df_def)
  with last show ?thesis by blast
qed

theorem original_data_download_is_date_filtered_witness:
  "last (fst (dashboard ex_pd (\<lambda>p. False) ex_to_datetime ex_to_period_M ex_strftime_Y_b
            ex_pd_sum ex_to_csv ex_encode ex_no_exception None (Some ex_upload)
            7 40 [Some ''West''] [] [])) =
     St_download_button ''Download Original Data'' ''rows:****'' ''Data.csv'' ''text/csv''
   \<and> length ex_loaded = 6
   \<and> length (filtered_df (df ex_to_datetime 7 40 ex_loaded) [Some ''West''] [] []) = 2"
proof -
  have d: "date_range_filter 7 40 (dropna_Order_Date (fix_date_parsing ex_to_datetime ex_loaded)) =
      map (coerce_row ex_to_datetime (map Order_Date ex_loaded))
        [ex_loaded ! 2, ex_loaded ! 3, ex_loaded ! 4, ex_loaded ! 5]"
    by (simp add: date_range_filter_def dropna_Order_Date_def fix_date_parsing_def
          ex_loaded_def ex_to_datetime_def coerce_row_def date_ge_def date_le_def)
  have f: "filtered_df (df ex_to_datetime 7 40 ex_loaded) [Some ''West''] [] [] =
      map (coerce_row ex_to_datetime (map Order_Date ex_loaded)) [ex_loaded ! 2, ex_loaded ! 5]"
    by (simp add: filtered_df_def sidebar_filter_def isin_def df_def date_range_filter_def
          dropna_Order_Date_def fix_date_parsing_def ex_loaded_def ex_to_datetime_def
          coerce_row_def date_ge_def date_le_def)
  have n: "length ex_loaded = 6"
    by (simp add: ex_loaded_def)
  from original_data_download_is_date_filtered
    [OF ex_load, of ex_to_datetime ex_to_period_M ex_strftime_Y_b ex_pd_sum ex_to_csv
      ex_encode ex_no_exception 7 40 "[Some ''West'']" "[]" "[]"]
    ex_run_completes
  show ?thesis
    by (simp add: d f n ex_to_csv_def ex_encode_def)
qed

end
